theory Spec2Isabelle
  imports Complex_Main
begin

section \<open>The Klein-Gordon demonstration script\<close>

text \<open>
  The script \<^verbatim>\<open>demo/KleinGordon.py\<close> is glue around a spectral library. The model follows
  the script statement by statement. Everything the script obtains from the library
  (transforms, assembled bilinear forms, reductions, meshes) is a field of the record
  \<open>library\<close>, passed to every function; the script's own data (bases, spaces, the
  parameter dictionary, the arrays it allocates and the two callbacks) is defined here.

  Arrays are values of a type \<open>'a\<close> of class \<open>real_algebra_1\<close>: numpy's element-wise
  \<open>+\<close>, \<open>-\<close>, \<open>*\<close>, \<open>**\<close> are the ring operations, multiplication by a Python float is
  \<open>*\<^sub>R\<close>, multiplication by a Python int is \<open>of_int\<close>. Python floats are idealised as
  reals.
\<close>

subsection \<open>Bases and spaces (lines 35-61)\<close>

record basis =
  b_N :: nat
  family :: string
  dtype :: string
  domain :: "real \<times> real"
  padding_factor :: "real option"

text \<open>\<^verbatim>\<open>Basis(N, family, dtype=..., domain=..., padding_factor=...)\<close>; the keyword
  \<open>padding_factor\<close> is \<open>None\<close> where the call does not pass it.\<close>

definition Basis :: "nat \<Rightarrow> string \<Rightarrow> string \<Rightarrow> real \<times> real \<Rightarrow> real option \<Rightarrow> basis" where
  "Basis n fam dt dm pf =
     \<lparr>b_N = n, family = fam, dtype = dt, domain = dm, padding_factor = pf\<rparr>"

record tpspace =
  bases :: "basis list"
  slab :: bool
  planner_effort :: string
  threads_kw :: nat
  collapse_fourier :: bool

definition TensorProductSpace :: "basis list \<Rightarrow> bool \<Rightarrow> string \<Rightarrow> nat \<Rightarrow> bool \<Rightarrow> tpspace" where
  "TensorProductSpace bs sl pe th cf =
     \<lparr>bases = bs, slab = sl, planner_effort = pe, threads_kw = th, collapse_fourier = cf\<rparr>"

type_synonym mixed_space = "tpspace list"

definition MixedTensorProductSpace :: "tpspace list \<Rightarrow> mixed_space" where
  "MixedTensorProductSpace sps = sps"

datatype vector_space = VectorTensorProductSpace tpspace

definition N :: "nat list" where
  "N = [32, 32, 32]"

definition gamma :: int where
  "gamma = 1"

definition threads :: nat where
  "threads = 1"

definition K0 :: basis where
  "K0 = Basis (N ! 0) ''F'' ''D'' (- 2 * pi, 2 * pi) None"

definition K1 :: basis where
  "K1 = Basis (N ! 1) ''F'' ''D'' (- 2 * pi, 2 * pi) None"

definition K2 :: basis where
  "K2 = Basis (N ! 2) ''F'' ''d'' (- 2 * pi, 2 * pi) None"

definition T :: tpspace where
  "T = TensorProductSpace [K0, K1, K2] True ''FFTW_MEASURE'' threads True"

definition TT :: mixed_space where
  "TT = MixedTensorProductSpace [T, T]"

definition TV :: vector_space where
  "TV = VectorTensorProductSpace T"

definition Kp0 :: basis where
  "Kp0 = Basis (N ! 0) ''F'' ''D'' (- 2 * pi, 2 * pi) (Some 1.5)"

definition Kp1 :: basis where
  "Kp1 = Basis (N ! 1) ''F'' ''D'' (- 2 * pi, 2 * pi) (Some 1.5)"

definition Kp2 :: basis where
  "Kp2 = Basis (N ! 2) ''F'' ''D'' (- 2 * pi, 2 * pi) (Some 1.5)"

subsection \<open>The library\<close>

text \<open>Symbolic arguments of the library's \<open>inner\<close> (lines 81-84).\<close>

datatype form =
    TrialFunction tpspace
  | TestFunction tpspace
  | grad form
  | neg form
  | scale int form

text \<open>
  What the script calls in the library. The two transforms follow the library's calling
  convention \<open>space.forward(input, output)\<close>: the transform of \<open>input\<close> is stored in the
  array \<open>output\<close>, which is returned, and \<open>input\<close> is left as it was; the fields below
  give the value stored.
\<close>

record 'a library =
  rank :: nat
  forward :: "tpspace \<Rightarrow> 'a \<Rightarrow> 'a"
  backward :: "tpspace \<Rightarrow> 'a \<Rightarrow> 'a"
  vbackward :: "vector_space \<Rightarrow> 'a \<Rightarrow> 'a"
  inner :: "form \<Rightarrow> form \<Rightarrow> 'a"
  energy_fourier :: "'a \<Rightarrow> tpspace \<Rightarrow> 'a"
  local_mesh :: "tpspace \<Rightarrow> 'a \<times> 'a \<times> 'a"
  local_wavenumbers :: "tpspace \<Rightarrow> 'a \<times> 'a \<times> 'a"
  allreduce :: "'a \<Rightarrow> 'a"
  np_array :: "'a \<times> 'a \<times> 'a \<Rightarrow> 'a"
  np_sum :: "'a \<Rightarrow> 'a"
  np_exp :: "'a \<Rightarrow> 'a"
  last_axis :: "'a \<Rightarrow> nat \<Rightarrow> 'a"
  imag_j :: 'a

subsection \<open>The script's mutable state\<close>

datatype error = ValueError | ZeroDivisionError | Unbound

type_synonym addr = nat

text \<open>A view is one component of a mixed array: \<open>f, u = fu[:]\<close> yields two of them.\<close>

type_synonym view = "addr \<times> nat"

type_synonym 'a heap = "addr \<Rightarrow> 'a list option"

record 'a state =
  heap :: "'a heap"
  Tp :: tpspace
  up :: 'a
  gradu :: 'a
  count :: int
  u_hat_g :: view

text \<open>\<open>a, b = arr[:]\<close>: Python raises ValueError unless \<open>arr\<close> has exactly two components.\<close>

definition unpack2 :: "'a heap \<Rightarrow> addr \<Rightarrow> error + (view \<times> view)" where
  "unpack2 h a =
     (case h a of
        None \<Rightarrow> Inl Unbound
      | Some xs \<Rightarrow> if length xs = 2 then Inr ((a, 0), (a, 1)) else Inl ValueError)"

text \<open>Reading and writing through a view; a write is in place, so the array keeps its
  number of components.\<close>

definition rd :: "'a heap \<Rightarrow> view \<Rightarrow> 'a" where
  "rd h v = the (h (fst v)) ! snd v"

definition wr :: "'a heap \<Rightarrow> view \<Rightarrow> 'a \<Rightarrow> 'a heap" where
  "wr h v x = (case h (fst v) of None \<Rightarrow> h | Some xs \<Rightarrow> h(fst v \<mapsto> xs[snd v := x]))"

text \<open>\<open>arr.fill(0)\<close>\<close>

definition fill0 :: "('a::zero) heap \<Rightarrow> addr \<Rightarrow> 'a heap" where
  "fill0 h a = (case h a of None \<Rightarrow> h | Some xs \<Rightarrow> h(a \<mapsto> map (\<lambda>_. 0) xs))"

text \<open>
  Modelled from the spec: the library's constructors \<open>Array(space)\<close> and \<open>Function(space)\<close>
  are not part of the script, which only calls them. A new array is an array of zeros
  (the script relies on it at line 77: \<open>f initialized to zero, so all set\<close>); over a mixed
  space it has one component per space.
\<close>

definition Array_mixed :: "mixed_space \<Rightarrow> ('a::zero) list" where
  "Array_mixed sps = replicate (length sps) 0"

definition Function_mixed :: "mixed_space \<Rightarrow> ('a::zero) list" where
  "Function_mixed sps = replicate (length sps) 0"

definition Array_tp :: "tpspace \<Rightarrow> 'a::zero" where
  "Array_tp sp = 0"

definition Array_vec :: "vector_space \<Rightarrow> 'a::zero" where
  "Array_vec sp = 0"

subsection \<open>Module level: initial condition and operator (lines 29-32, 63-84)\<close>

text \<open>\<open>ue = 0.1*exp(-(x**2 + y**2 + z**2))\<close>, evaluated by numpy on three arrays.\<close>

definition ul :: "('a::real_algebra_1) library \<Rightarrow> 'a \<Rightarrow> 'a \<Rightarrow> 'a \<Rightarrow> 'a" where
  "ul lib x y z = 0.1 *\<^sub>R np_exp lib (- (x ^ 2 + y ^ 2 + z ^ 2))"

definition X :: "'a library \<Rightarrow> 'a \<times> 'a \<times> 'a" where
  "X lib = local_mesh lib T"

definition K :: "'a library \<Rightarrow> 'a" where
  "K lib = np_array lib (local_wavenumbers lib T)"

definition uh :: form where
  "uh = TrialFunction T"

definition vh :: form where
  "vh = TestFunction T"

definition L :: "('a::real_algebra_1) library \<Rightarrow> 'a" where
  "L lib = inner lib (grad vh) (neg (grad uh)) - inner lib vh (scale gamma uh)"

text \<open>The three mixed arrays the script allocates.\<close>

definition fu_g :: addr where
  "fu_g = 0"

definition dfu_g :: addr where
  "dfu_g = 1"

definition fu_hat_g :: addr where
  "fu_hat_g = 2"

text \<open>
  The module-level statements that bind or mutate state, in source order. \<open>Tp\<close> is bound
  at line 55 and bound again at line 61; \<open>u_hat\<close> is bound at line 73 and again at
  line 79, to the array \<open>forward\<close> returns, which is its output argument.
\<close>

definition module_init :: "('a::real_algebra_1) library \<Rightarrow> error + 'a state" where
  "module_init lib =
     (let Tp = TensorProductSpace [Kp0, Kp1, Kp2] True ''FFTW_MEASURE'' threads True;
          Tp = T;
          h = Map.empty;
          h = h(fu_g \<mapsto> Array_mixed TT)
      in case unpack2 h fu_g of Inl e \<Rightarrow> Inl e | Inr (f, u) \<Rightarrow>
      let up = Array_tp Tp;
          h = h(dfu_g \<mapsto> Function_mixed TT)
      in case unpack2 h dfu_g of Inl e \<Rightarrow> Inl e | Inr (df, du) \<Rightarrow>
      let h = h(fu_hat_g \<mapsto> Function_mixed TT)
      in case unpack2 h fu_hat_g of Inl e \<Rightarrow> Inl e | Inr (f_hat, u_hat) \<Rightarrow>
      let gradu = Array_vec TV;
          h = (case X lib of (x, y, z) \<Rightarrow> wr h u (ul lib x y z));
          h = wr h u_hat (forward lib T (rd h u));
          u_hat = u_hat;
          count = 0
      in Inr \<lparr>heap = h, Tp = Tp, up = up, gradu = gradu, count = count, u_hat_g = u_hat\<rparr>)"

subsection \<open>The right-hand side callback (lines 88-99)\<close>

definition NonlinearRHS ::
  "('a::real_algebra_1) library \<Rightarrow> 'a state \<Rightarrow> addr \<Rightarrow> addr \<Rightarrow> addr \<Rightarrow> error + ('a state \<times> addr)" where
  "NonlinearRHS lib s fu fu_hat dfu_hat =
     (let s = s\<lparr>count := count s + 1\<rparr>;
          s = s\<lparr>heap := fill0 (heap s) dfu_hat\<rparr>
      in case unpack2 (heap s) fu_hat of Inl e \<Rightarrow> Inl e | Inr (f_hat, u_hat) \<Rightarrow>
         case unpack2 (heap s) dfu_hat of Inl e \<Rightarrow> Inl e | Inr (df_hat, du_hat) \<Rightarrow>
      let s = s\<lparr>up := backward lib (Tp s) (rd (heap s) u_hat)\<rparr>;
          s = s\<lparr>heap := wr (heap s) df_hat (forward lib (Tp s) (of_int gamma * up s ^ 3))\<rparr>;
          s = s\<lparr>heap := wr (heap s) df_hat (rd (heap s) df_hat + L lib * rd (heap s) u_hat)\<rparr>;
          s = s\<lparr>heap := wr (heap s) du_hat (rd (heap s) f_hat)\<rparr>
      in Inr (s, dfu_hat))"

subsection \<open>The update callback (lines 107-147)\<close>

datatype index = slice_None | int_index nat

datatype field_sel = whole addr | sliced addr "index list"

type_synonym write_spec = "(string \<times> field_sel list) list"

datatype hdf5file = HDF5File string mixed_space string

record params =
  write_slice_tstep :: "int \<times> write_spec"
  write_tstep :: "int \<times> write_spec"
  Compute_energy :: int
  plot_tstep :: int
  end_time :: real
  file_p :: hdf5file

text \<open>What the callback does to the outside world, in the order it does it.
  \<open>Allreduce x\<close> is a call \<open>comm.allreduce(x)\<close>: the process contributes its local value
  \<open>x\<close> to the reduction; what the reduction returns is the library's \<open>allreduce\<close>.\<close>

datatype 'a event =
    Timer_call
  | Backward_call addr addr
  | Ax_clear
  | Contourf 'a 'a 'a nat
  | Pause real
  | File_write hdf5file int write_spec bool
  | Allreduce 'a
  | Print real 'a 'a 'a
  | Barrier

text \<open>\<open>a % b\<close> on Python ints: floor remainder, ZeroDivisionError for \<open>b = 0\<close>.\<close>

definition py_mod :: "int \<Rightarrow> int \<Rightarrow> error + int" where
  "py_mod a b = (if b = 0 then Inl ZeroDivisionError else Inr (a mod b))"

text \<open>
  Modelled from the spec: the transform of an array over a mixed space is the library's,
  not part of the script. \<open>fu = fu_hat.backward(fu)\<close> on arrays over the mixed space \<open>TT\<close>
  transforms component by component, each component through the scalar transform
  \<open>backward\<close> of its own space (a parameter), into the components of the output array, and
  returns the output array; arrays with another number of components are rejected.
\<close>

definition Function_backward :: "'a library \<Rightarrow> 'a heap \<Rightarrow> addr \<Rightarrow> addr \<Rightarrow> error + 'a heap" where
  "Function_backward lib h fu_hat fu =
     (case h fu_hat of
        None \<Rightarrow> Inl Unbound
      | Some xs \<Rightarrow>
          (case h fu of
             None \<Rightarrow> Inl Unbound
           | Some ys \<Rightarrow>
               if length xs = length TT \<and> length ys = length TT
               then Inr (h(fu \<mapsto> map2 (backward lib) TT xs))
               else Inl ValueError))"

record 'a frame =
  st :: "'a state"
  transformed :: bool
  events :: "'a event list"

text \<open>The body of \<open>if transformed is False:\<close> without the assignment to the flag.\<close>

definition backward_unless_transformed ::
  "'a library \<Rightarrow> addr \<Rightarrow> addr \<Rightarrow> 'a frame \<Rightarrow> error + 'a frame" where
  "backward_unless_transformed lib fu fu_hat fr =
     (if \<not> transformed fr
      then (case Function_backward lib (heap (st fr)) fu_hat fu of
              Inl e \<Rightarrow> Inl e
            | Inr h \<Rightarrow> Inr (fr\<lparr>st := (st fr)\<lparr>heap := h\<rparr>,
                               events := events fr @ [Backward_call fu_hat fu]\<rparr>))
      else Inr fr)"

text \<open>Lines 113-119. \<open>and\<close> evaluates left to right and stops at the first false operand.\<close>

definition plot_block ::
  "'a library \<Rightarrow> params \<Rightarrow> addr \<Rightarrow> addr \<Rightarrow> int \<Rightarrow> 'a frame \<Rightarrow> error + 'a frame" where
  "plot_block lib ps fu fu_hat tstep fr =
     (if rank lib \<noteq> 0 then Inr fr
      else case py_mod tstep (plot_tstep ps) of
        Inl e \<Rightarrow> Inl e
      | Inr r \<Rightarrow>
          if r = 0 \<and> plot_tstep ps > 0
          then (case Function_backward lib (heap (st fr)) fu_hat fu of
                  Inl e \<Rightarrow> Inl e
                | Inr h \<Rightarrow>
                    (case unpack2 h fu of
                       Inl e \<Rightarrow> Inl e
                     | Inr (f, u) \<Rightarrow>
                         Inr (fr\<lparr>st := (st fr)\<lparr>heap := h\<rparr>,
                                 transformed := True,
                                 events := events fr @
                                   [Backward_call fu_hat fu, Ax_clear,
                                    Contourf (last_axis lib (fst (snd (X lib))) 0)
                                             (last_axis lib (fst (X lib)) 0)
                                             (last_axis lib (rd h u) (N ! 2 div 2)) 100,
                                    Pause (1 / 10 ^ 6)]\<rparr>)))
          else Inr fr)"

text \<open>Lines 121-125.\<close>

definition slice_block ::
  "'a library \<Rightarrow> params \<Rightarrow> addr \<Rightarrow> addr \<Rightarrow> int \<Rightarrow> 'a frame \<Rightarrow> error + 'a frame" where
  "slice_block lib ps fu fu_hat tstep fr =
     (case py_mod tstep (fst (write_slice_tstep ps)) of
        Inl e \<Rightarrow> Inl e
      | Inr r \<Rightarrow>
          if r = 0
          then (case backward_unless_transformed lib fu fu_hat fr of
                  Inl e \<Rightarrow> Inl e
                | Inr fr \<Rightarrow>
                    Inr (fr\<lparr>transformed := True,
                            events := events fr @
                              [File_write (file_p ps) tstep (snd (write_slice_tstep ps)) True]\<rparr>))
          else Inr fr)"

text \<open>Lines 127-131.\<close>

definition write_block ::
  "'a library \<Rightarrow> params \<Rightarrow> addr \<Rightarrow> addr \<Rightarrow> int \<Rightarrow> 'a frame \<Rightarrow> error + 'a frame" where
  "write_block lib ps fu fu_hat tstep fr =
     (case py_mod tstep (fst (write_tstep ps)) of
        Inl e \<Rightarrow> Inl e
      | Inr r \<Rightarrow>
          if r = 0
          then (case backward_unless_transformed lib fu fu_hat fr of
                  Inl e \<Rightarrow> Inl e
                | Inr fr \<Rightarrow>
                    Inr (fr\<lparr>transformed := True,
                            events := events fr @
                              [File_write (file_p ps) tstep (snd (write_tstep ps)) True]\<rparr>))
          else Inr fr)"

text \<open>\<open>np.prod(np.array(N))\<close>\<close>

definition np_prod_N :: real where
  "np_prod_N = real (prod_list N)"

text \<open>Lines 133-147.\<close>

definition energy_block ::
  "('a::real_algebra_1) library \<Rightarrow> params \<Rightarrow> addr \<Rightarrow> addr \<Rightarrow> real \<Rightarrow> int \<Rightarrow> 'a frame
     \<Rightarrow> error + 'a frame" where
  "energy_block lib ps fu fu_hat t tstep fr =
     (case py_mod tstep (Compute_energy ps) of
        Inl e \<Rightarrow> Inl e
      | Inr r \<Rightarrow>
          if r = 0
          then (case backward_unless_transformed lib fu fu_hat fr of
                  Inl e \<Rightarrow> Inl e
                | Inr fr \<Rightarrow>
                   (case unpack2 (heap (st fr)) fu of
                      Inl e \<Rightarrow> Inl e
                    | Inr (f, u) \<Rightarrow>
                       (case unpack2 (heap (st fr)) fu_hat of
                          Inl e \<Rightarrow> Inl e
                        | Inr (f_hat, u_hat) \<Rightarrow>
                           (let f = rd (heap (st fr)) f;
                                u = rd (heap (st fr)) u;
                                f_hat = rd (heap (st fr)) f_hat;
                                u_hat = rd (heap (st fr)) u_hat;
                                ekin = 0.5 *\<^sub>R energy_fourier lib f_hat T;
                                es = 0.5 *\<^sub>R energy_fourier lib (imag_j lib * K lib * u_hat) T;
                                eg_loc = (of_int gamma *
                                            np_sum lib (0.5 *\<^sub>R u ^ 2 - 0.25 *\<^sub>R u ^ 4))
                                           /\<^sub>R np_prod_N;
                                eg = allreduce lib eg_loc;
                                gradu = vbackward lib TV (imag_j lib * K lib * u_hat);
                                ep_loc = np_sum lib (f * gradu) /\<^sub>R np_prod_N;
                                ep = allreduce lib ep_loc;
                                ea_loc = np_sum lib (np_array lib (X lib) *
                                          (0.5 *\<^sub>R f ^ 2 + 0.5 *\<^sub>R gradu ^ 2
                                             - (0.5 *\<^sub>R u ^ 2 - 0.25 *\<^sub>R u ^ 4) * f))
                                         /\<^sub>R np_prod_N;
                                ea = allreduce lib ea_loc
                            in Inr (fr\<lparr>st := (st fr)\<lparr>gradu := gradu\<rparr>,
                                       events := events fr @
                                         [Allreduce eg_loc, Allreduce ep_loc, Allreduce ea_loc] @
                                         (if rank lib = 0 then [Print t (ekin + es + eg) ep ea]
                                          else []) @ [Barrier]\<rparr>)))))
          else Inr fr)"

definition update ::
  "('a::real_algebra_1) library \<Rightarrow> 'a state \<Rightarrow> addr \<Rightarrow> addr \<Rightarrow> real \<Rightarrow> int \<Rightarrow> params
     \<Rightarrow> error + ('a state \<times> 'a event list)" where
  "update lib s fu fu_hat t tstep ps =
     (let fr = \<lparr>st = s, transformed = False, events = [Timer_call]\<rparr>
      in case plot_block lib ps fu fu_hat tstep fr of Inl e \<Rightarrow> Inl e | Inr fr \<Rightarrow>
         case slice_block lib ps fu fu_hat tstep fr of Inl e \<Rightarrow> Inl e | Inr fr \<Rightarrow>
         case write_block lib ps fu fu_hat tstep fr of Inl e \<Rightarrow> Inl e | Inr fr \<Rightarrow>
         case energy_block lib ps fu fu_hat t tstep fr of Inl e \<Rightarrow> Inl e | Inr fr \<Rightarrow>
         Inr (st fr, events fr))"

subsection \<open>The main block (lines 149-167)\<close>

text \<open>\<open>"{}".format(n)\<close> for a non-negative int: its decimal digits.\<close>

fun str_nat :: "nat \<Rightarrow> string" where
  "str_nat n =
     (if n < 10 then [''0123456789'' ! n]
      else str_nat (n div 10) @ [''0123456789'' ! (n mod 10)])"

definition h5name :: string where
  "h5name = ''KleinGordon'' @ str_nat (N ! 0) @ ''.h5''"

definition file0 :: hdf5file where
  "file0 = HDF5File h5name TT ''w''"

definition par :: params where
  "par =
     \<lparr>write_slice_tstep =
        (10, [(''fu'', [sliced fu_g [slice_None, slice_None, int_index 10, slice_None],
                        sliced fu_g [slice_None, int_index 10, slice_None, slice_None]])]),
      write_tstep = (50, [(''fu'', [whole fu_g])]),
      Compute_energy = 100,
      plot_tstep = 100,
      end_time = 100,
      file_p = file0\<rparr>"

definition dt :: real where
  "dt = 0.005"

text \<open>The calls the main block makes, in order; the two callbacks are passed as values.\<close>

datatype 'a call =
    ETDRK4 mixed_space
      "'a state \<Rightarrow> addr \<Rightarrow> addr \<Rightarrow> addr \<Rightarrow> error + ('a state \<times> addr)"
      "'a state \<Rightarrow> addr \<Rightarrow> addr \<Rightarrow> real \<Rightarrow> int \<Rightarrow> params \<Rightarrow> error + ('a state \<times> 'a event list)"
      params
  | integrator_setup real
  | integrator_solve addr addr real "real \<times> real"
  | timer_final bool
  | generate_xdmf string

definition main :: "('a::real_algebra_1) library \<Rightarrow> 'a call list" where
  "main lib =
     [ETDRK4 TT (NonlinearRHS lib) (update lib) par,
      integrator_setup dt,
      integrator_solve fu_g fu_hat_g dt (0, end_time par),
      timer_final True]
     @ (if rank lib = 0 then [generate_xdmf h5name] else [])"

subsection \<open>Observations on states and event lists\<close>

text \<open>An array over the mixed space has exactly two components.\<close>

definition two_components :: "'a heap \<Rightarrow> addr \<Rightarrow> bool" where
  "two_components h a = (case h a of None \<Rightarrow> False | Some xs \<Rightarrow> length xs = 2)"

fun is_backward :: "'a event \<Rightarrow> bool" where
  "is_backward (Backward_call i out) = True"
| "is_backward e = False"

fun is_file_write :: "'a event \<Rightarrow> bool" where
  "is_file_write (File_write fl n spec sc) = True"
| "is_file_write e = False"

fun is_diagnostic :: "'a event \<Rightarrow> bool" where
  "is_diagnostic (Allreduce x) = True"
| "is_diagnostic (Print t e p a) = True"
| "is_diagnostic Barrier = True"
| "is_diagnostic e = False"

text \<open>
  The diagnostics as the specification words them, to be compared with what
  \<open>energy_block\<close> computes: kinetic, strain and potential energy, linear and angular
  momentum. The number of grid points is \<open>32 * 32 * 32 = 32768\<close>. The potential energy
  and the two momenta are the all-reduction of the process's local share.
\<close>

definition kinetic_energy :: "('a::real_algebra_1) library \<Rightarrow> 'a \<Rightarrow> 'a" where
  "kinetic_energy lib f_hat = 0.5 *\<^sub>R energy_fourier lib f_hat T"

definition strain_energy :: "('a::real_algebra_1) library \<Rightarrow> 'a \<Rightarrow> 'a" where
  "strain_energy lib u_hat = 0.5 *\<^sub>R energy_fourier lib (imag_j lib * K lib * u_hat) T"

definition potential_local :: "('a::real_algebra_1) library \<Rightarrow> 'a \<Rightarrow> 'a" where
  "potential_local lib u =
     (of_int gamma * np_sum lib (0.5 *\<^sub>R u ^ 2 - 0.25 *\<^sub>R u ^ 4)) /\<^sub>R 32768"

definition potential_energy :: "('a::real_algebra_1) library \<Rightarrow> 'a \<Rightarrow> 'a" where
  "potential_energy lib u = allreduce lib (potential_local lib u)"

definition grad_u :: "('a::real_algebra_1) library \<Rightarrow> 'a \<Rightarrow> 'a" where
  "grad_u lib u_hat = vbackward lib TV (imag_j lib * K lib * u_hat)"

definition linear_local :: "('a::real_algebra_1) library \<Rightarrow> 'a \<Rightarrow> 'a \<Rightarrow> 'a" where
  "linear_local lib f gu = np_sum lib (f * gu) /\<^sub>R 32768"

definition linear_momentum :: "('a::real_algebra_1) library \<Rightarrow> 'a \<Rightarrow> 'a \<Rightarrow> 'a" where
  "linear_momentum lib f gu = allreduce lib (linear_local lib f gu)"

definition angular_local :: "('a::real_algebra_1) library \<Rightarrow> 'a \<Rightarrow> 'a \<Rightarrow> 'a \<Rightarrow> 'a" where
  "angular_local lib f u gu =
     np_sum lib (np_array lib (X lib) *
        (0.5 *\<^sub>R f ^ 2 + 0.5 *\<^sub>R gu ^ 2 - (0.5 *\<^sub>R u ^ 2 - 0.25 *\<^sub>R u ^ 4) * f)) /\<^sub>R 32768"

definition angular_momentum :: "('a::real_algebra_1) library \<Rightarrow> 'a \<Rightarrow> 'a \<Rightarrow> 'a \<Rightarrow> 'a" where
  "angular_momentum lib f u gu = allreduce lib (angular_local lib f u gu)"

text \<open>
  A concrete library over the reals (arrays of a single point) and a concrete state with
  three mixed arrays, on which the model is evaluated.
\<close>

definition toy_library :: "real library" where
  "toy_library =
     \<lparr>rank = 0,
      forward = (\<lambda>sp x. x + 1),
      backward = (\<lambda>sp x. 2 * x),
      vbackward = (\<lambda>sp x. 3 * x),
      inner = (\<lambda>v u. case v of grad w \<Rightarrow> - 5 | w \<Rightarrow> 1),
      energy_fourier = (\<lambda>x sp. x * x),
      local_mesh = (\<lambda>sp. (1, 2, 3)),
      local_wavenumbers = (\<lambda>sp. (1, 1, 1)),
      allreduce = (\<lambda>x. 4 * x),
      np_array = (\<lambda>xyz. fst xyz + fst (snd xyz) + snd (snd xyz)),
      np_sum = (\<lambda>x. x),
      np_exp = (\<lambda>x. x + 1),
      last_axis = (\<lambda>x k. x),
      imag_j = 1\<rparr>"

definition toy_state :: "real state" where
  "toy_state =
     \<lparr>heap = [0 \<mapsto> [1, 2], 1 \<mapsto> [3, 4], 2 \<mapsto> [5, 6]],
      Tp = T, up = 0, gradu = 0, count = 0, u_hat_g = (2, 1)\<rparr>"

section \<open>Evaluation lemmas\<close>

lemma np_prod_N_eq: "np_prod_N = 32768"
  by (simp add: np_prod_N_def N_def)

lemma h5name_eq: "h5name = ''KleinGordon32.h5''"
  by (simp add: h5name_def N_def)

lemma TT_eq: "TT = [T, T]"
  by (simp add: TT_def MixedTensorProductSpace_def)

lemma NonlinearRHS_eval:
  assumes "heap s fu_hat = Some [fh, uh']" and "heap s dfu_hat = Some [d0, d1]"
    and "fu_hat \<noteq> dfu_hat"
  shows "NonlinearRHS lib s fu fu_hat dfu_hat =
     Inr (s\<lparr>heap := (heap s)(dfu_hat \<mapsto>
                [forward lib (Tp s) (of_int gamma * backward lib (Tp s) uh' ^ 3) + L lib * uh',
                 fh]),
            up := backward lib (Tp s) uh',
            count := count s + 1\<rparr>, dfu_hat)"
  using assms
  by (simp add: NonlinearRHS_def Let_def unpack2_def fill0_def wr_def rd_def)

lemma Function_backward_eval:
  assumes "h fu_hat = Some [c, d]" and "h fu = Some [a, b]"
  shows "Function_backward lib h fu_hat fu =
     Inr (h(fu \<mapsto> [backward lib T c, backward lib T d]))"
  using assms by (simp add: Function_backward_def TT_eq)

lemma module_init_eval:
  "module_init lib =
     Inr \<lparr>heap = [fu_g \<mapsto> [0, ul lib (fst (X lib)) (fst (snd (X lib))) (snd (snd (X lib)))],
                 dfu_g \<mapsto> [0, 0],
                 fu_hat_g \<mapsto> [0, forward lib T
                    (ul lib (fst (X lib)) (fst (snd (X lib))) (snd (snd (X lib))))]],
          Tp = T, up = 0, gradu = 0, count = 0, u_hat_g = (fu_hat_g, 1)\<rparr>"
  apply (simp add: module_init_def Let_def unpack2_def TT_eq Array_mixed_def
      Function_mixed_def fu_g_def dfu_g_def fu_hat_g_def wr_def rd_def Array_tp_def
      Array_vec_def split: prod.splits)
  apply (auto simp: fun_eq_iff numeral_2_eq_2)
  done

text \<open>The update callback under the script's parameters \<open>par\<close>, by the residue of
  \<open>tstep\<close>.\<close>

lemma update_par_idle:
  assumes "tstep mod 10 \<noteq> 0"
  shows "update lib s fu fu_hat t tstep par = Inr (s, [Timer_call])"
proof -
  from assms have "tstep mod 50 \<noteq> 0" "tstep mod 100 \<noteq> 0" by presburger+
  with assms show ?thesis
    by (simp add: update_def Let_def plot_block_def slice_block_def write_block_def
        energy_block_def py_mod_def par_def)
qed

lemma update_par_slice:
  assumes "heap s fu_hat = Some [c, d]" and "heap s fu = Some [a, b]"
    and "tstep mod 10 = 0" and "tstep mod 50 \<noteq> 0"
  shows "update lib s fu fu_hat t tstep par =
     Inr (s\<lparr>heap := (heap s)(fu \<mapsto> [backward lib T c, backward lib T d])\<rparr>,
          [Timer_call, Backward_call fu_hat fu,
           File_write file0 tstep (snd (write_slice_tstep par)) True])"
proof -
  from assms have "tstep mod 100 \<noteq> 0" by presburger
  with assms show ?thesis
    by (simp add: update_def Let_def plot_block_def slice_block_def write_block_def
        energy_block_def py_mod_def par_def backward_unless_transformed_def
        Function_backward_eval)
qed

lemma update_par_checkpoint:
  assumes "heap s fu_hat = Some [c, d]" and "heap s fu = Some [a, b]"
    and "tstep mod 50 = 0" and "tstep mod 100 \<noteq> 0"
  shows "update lib s fu fu_hat t tstep par =
     Inr (s\<lparr>heap := (heap s)(fu \<mapsto> [backward lib T c, backward lib T d])\<rparr>,
          [Timer_call, Backward_call fu_hat fu,
           File_write file0 tstep (snd (write_slice_tstep par)) True,
           File_write file0 tstep (snd (write_tstep par)) True])"
proof -
  from assms have "tstep mod 10 = 0" by presburger
  with assms show ?thesis
    by (simp add: update_def Let_def plot_block_def slice_block_def write_block_def
        energy_block_def py_mod_def par_def backward_unless_transformed_def
        Function_backward_eval)
qed

text \<open>On a multiple of 100 all four blocks run. The spectral components read by the
  energy block are those found in the heap after the transform, \<open>f_hat\<close> and \<open>u_hat\<close>
  below; they are \<open>c\<close> and \<open>d\<close> when \<open>fu\<close> and \<open>fu_hat\<close> are different arrays.\<close>

lemma update_par_energy:
  assumes "heap s fu_hat = Some [c, d]" and "heap s fu = Some [a, b]"
    and "tstep mod 100 = 0"
    and "f_hat = (if fu = fu_hat then backward lib T c else c)"
    and "u_hat = (if fu = fu_hat then backward lib T d else d)"
  shows "update lib s fu fu_hat t tstep par =
     Inr (s\<lparr>heap := (heap s)(fu \<mapsto> [backward lib T c, backward lib T d]),
            gradu := grad_u lib u_hat\<rparr>,
          [Timer_call] @
          (if rank lib = 0
           then [Backward_call fu_hat fu, Ax_clear,
                 Contourf (last_axis lib (fst (snd (X lib))) 0) (last_axis lib (fst (X lib)) 0)
                   (last_axis lib (backward lib T d) 16) 100,
                 Pause (1 / 10 ^ 6)]
           else [Backward_call fu_hat fu]) @
          [File_write file0 tstep (snd (write_slice_tstep par)) True,
           File_write file0 tstep (snd (write_tstep par)) True] @
          [Allreduce (potential_local lib (backward lib T d)),
           Allreduce (linear_local lib (backward lib T c) (grad_u lib u_hat)),
           Allreduce (angular_local lib (backward lib T c) (backward lib T d)
                        (grad_u lib u_hat))] @
          (if rank lib = 0
           then [Print t (kinetic_energy lib f_hat + strain_energy lib u_hat
                            + potential_energy lib (backward lib T d))
                   (linear_momentum lib (backward lib T c) (grad_u lib u_hat))
                   (angular_momentum lib (backward lib T c) (backward lib T d)
                      (grad_u lib u_hat))]
           else []) @ [Barrier])"
proof -
  from assms(3) have "tstep mod 10 = 0" "tstep mod 50 = 0" by presburger+
  with assms show ?thesis
    by (simp add: update_def Let_def plot_block_def slice_block_def write_block_def
        energy_block_def py_mod_def par_def backward_unless_transformed_def
        Function_backward_eval unpack2_def rd_def N_def np_prod_N_eq kinetic_energy_def
        strain_energy_def potential_energy_def potential_local_def grad_u_def
        linear_momentum_def linear_local_def angular_momentum_def angular_local_def)
qed

section \<open>The right-hand side callback\<close>




section \<open>The spaces\<close>

text \<open>
  C2. The scalar space \<open>T\<close> is one tensor-product space of three bases, each of the
  Fourier family \<open>'F'\<close>, each on the interval \<open>(-2 pi, 2 pi)\<close>, each with 32 points.
\<close>

theorem spatial_discretization:
  "T = TensorProductSpace [K0, K1, K2] True ''FFTW_MEASURE'' 1 True \<and>
   map family (bases T) = [''F'', ''F'', ''F''] \<and>
   map domain (bases T) = [(- 2 * pi, 2 * pi), (- 2 * pi, 2 * pi), (- 2 * pi, 2 * pi)] \<and>
   map b_N (bases T) = [32, 32, 32]"
  by (simp add: T_def TensorProductSpace_def K0_def K1_def K2_def Basis_def N_def threads_def)

text \<open>
  C3. The claim that the space \<open>Tp\<close>, through which \<open>NonlinearRHS\<close> forms the product, is
  built from bases with padding factor 1.5 fails: line 61 binds \<open>Tp\<close> to \<open>T\<close> again, after
  the padded space of line 55.
\<close>

theorem padding_counterexample:
  "\<not> isl (module_init toy_library) \<and>
   Tp (projr (module_init toy_library)) = T \<and>
   map padding_factor (bases (Tp (projr (module_init toy_library))))
     \<noteq> [Some 1.5, Some 1.5, Some 1.5]"
  by (simp add: module_init_eval T_def TensorProductSpace_def K0_def K1_def K2_def Basis_def)

text \<open>
  C3, as amended. In the state the module leaves, \<open>Tp\<close> is the space \<open>T\<close>, whose bases
  were created without a padding factor; the bases \<open>Kp0\<close>, \<open>Kp1\<close>, \<open>Kp2\<close> with padding
  factor 1.5 are built but the space made of them is not the one in force. \<open>NonlinearRHS\<close>
  takes both the backward transform of \<open>u_hat\<close> and the forward transform of the product
  through \<open>Tp\<close>, hence through \<open>T\<close>.
\<close>

theorem product_space_is_unpadded:
  assumes "module_init lib = Inr s0" and "Tp s = Tp s0"
    and "heap s fu_hat = Some [f_hat, u_hat]" and "heap s dfu_hat = Some [d0, d1]"
    and "fu_hat \<noteq> dfu_hat"
  shows "Tp s = T \<and>
     map padding_factor (bases T) = [None, None, None] \<and>
     map padding_factor [Kp0, Kp1, Kp2] = [Some 1.5, Some 1.5, Some 1.5] \<and>
     (\<exists>s'. NonlinearRHS lib s fu fu_hat dfu_hat = Inr (s', dfu_hat) \<and>
        up s' = backward lib T u_hat \<and>
        rd (heap s') (dfu_hat, 0) =
          forward lib T (of_int gamma * backward lib T u_hat ^ 3) + L lib * u_hat)"
proof -
  from assms(1) have "Tp s0 = T" by (auto simp: module_init_eval)
  with assms(2) have tp: "Tp s = T" by simp
  show ?thesis
    using NonlinearRHS_eval [OF assms(3-5), of lib fu] tp
    by (simp add: rd_def T_def TensorProductSpace_def K0_def K1_def K2_def Kp0_def Kp1_def
        Kp2_def Basis_def)
qed

theorem product_space_is_unpadded_witness:
  "module_init toy_library = Inr (projr (module_init toy_library)) \<and>
   Tp toy_state = Tp (projr (module_init toy_library)) \<and>
   heap toy_state 2 = Some [5, 6] \<and> heap toy_state 1 = Some [3, 4] \<and> (2::nat) \<noteq> 1 \<and>
   Tp toy_state = T \<and>
   (\<exists>s'. NonlinearRHS toy_library toy_state 0 2 1 = Inr (s', 1) \<and> up s' = 12 \<and>
      rd (heap s') (1, 0) = 1693)"
proof -
  have h1: "module_init toy_library = Inr (projr (module_init toy_library))"
    by (simp add: module_init_eval)
  have h2: "Tp toy_state = Tp (projr (module_init toy_library))"
    by (simp add: module_init_eval toy_state_def)
  have h3: "heap toy_state 2 = Some [5, 6]" by (simp add: toy_state_def)
  have h4: "heap toy_state 1 = Some [3, 4]" by (simp add: toy_state_def)
  have h5: "(2::nat) \<noteq> 1" by simp
  from product_space_is_unpadded [OF h1 h2 h3 h4 h5, of 0] h1 h2 h3 h4 show ?thesis
    by (auto simp: toy_library_def gamma_def L_def uh_def vh_def)
qed

section \<open>The update callback\<close>

text \<open>
  C5. The update callback, called with a physical array \<open>fu\<close> and a spectral array
  \<open>fu_hat = [f_hat, u_hat]\<close> (two different arrays) and any parameters with non-zero step
  counts, those of the script (\<open>Compute_energy = 100\<close>) among them, returns, and computes
  the diagnostics exactly when \<open>tstep\<close> is a multiple of \<open>Compute_energy\<close>. On such a step
  every process, whatever its rank, holds in \<open>fu\<close> the backward transform \<open>[f, u]\<close> of
  \<open>fu_hat\<close>, stores the gradient of \<open>u\<close> in \<open>gradu\<close>, contributes to three all-reductions
  in this order its local potential energy \<open>gamma*sum(0.5*u^2 - 0.25*u^4)/32768\<close>, linear
  momentum and angular momentum, and reaches the barrier; the process of rank 0, and only
  it, prints before the barrier the time, the sum of the kinetic energy
  \<open>0.5*energy_fourier(f_hat, T)\<close>, the strain energy \<open>0.5*energy_fourier(1j*K*u_hat, T)\<close>
  and the all-reduced potential energy, and the two all-reduced momenta. On any other step
  there is no all-reduction, no print and no barrier, and \<open>gradu\<close> is left as it was. In
  both cases the callback changes nothing else of the state than \<open>fu\<close> and \<open>gradu\<close>.
\<close>

theorem energy_diagnostics:
  assumes "heap s fu_hat = Some [f_hat, u_hat]" and "heap s fu = Some [a, b]"
    and "fu \<noteq> fu_hat"
    and "plot_tstep ps \<noteq> 0" and "fst (write_slice_tstep ps) \<noteq> 0"
    and "fst (write_tstep ps) \<noteq> 0" and "Compute_energy ps \<noteq> 0"
  shows "Compute_energy par = 100 \<and>
     (\<exists>s' ev. update lib s fu fu_hat t tstep ps = Inr (s', ev) \<and>
        filter is_diagnostic ev =
          (if tstep mod Compute_energy ps = 0
           then [Allreduce (potential_local lib (backward lib T u_hat)),
                 Allreduce (linear_local lib (backward lib T f_hat) (grad_u lib u_hat)),
                 Allreduce (angular_local lib (backward lib T f_hat) (backward lib T u_hat)
                              (grad_u lib u_hat))] @
                (if rank lib = 0
                 then [Print t (kinetic_energy lib f_hat + strain_energy lib u_hat
                                  + potential_energy lib (backward lib T u_hat))
                         (linear_momentum lib (backward lib T f_hat) (grad_u lib u_hat))
                         (angular_momentum lib (backward lib T f_hat) (backward lib T u_hat)
                            (grad_u lib u_hat))]
                 else []) @ [Barrier]
           else []) \<and>
        s' = s\<lparr>heap :=
                 (if (rank lib = 0 \<and> tstep mod plot_tstep ps = 0 \<and> plot_tstep ps > 0)
                     \<or> tstep mod fst (write_slice_tstep ps) = 0
                     \<or> tstep mod fst (write_tstep ps) = 0
                     \<or> tstep mod Compute_energy ps = 0
                  then (heap s)(fu \<mapsto> [backward lib T f_hat, backward lib T u_hat])
                  else heap s),
               gradu :=
                 (if tstep mod Compute_energy ps = 0 then grad_u lib u_hat else gradu s)\<rparr>)"
proof -
  have upd: "\<exists>s' ev. update lib s fu fu_hat t tstep ps = Inr (s', ev) \<and>
        filter is_diagnostic ev =
          (if tstep mod Compute_energy ps = 0
           then [Allreduce (potential_local lib (backward lib T u_hat)),
                 Allreduce (linear_local lib (backward lib T f_hat) (grad_u lib u_hat)),
                 Allreduce (angular_local lib (backward lib T f_hat) (backward lib T u_hat)
                              (grad_u lib u_hat))] @
                (if rank lib = 0
                 then [Print t (kinetic_energy lib f_hat + strain_energy lib u_hat
                                  + potential_energy lib (backward lib T u_hat))
                         (linear_momentum lib (backward lib T f_hat) (grad_u lib u_hat))
                         (angular_momentum lib (backward lib T f_hat) (backward lib T u_hat)
                            (grad_u lib u_hat))]
                 else []) @ [Barrier]
           else []) \<and>
        s' = s\<lparr>heap :=
                 (if (rank lib = 0 \<and> tstep mod plot_tstep ps = 0 \<and> plot_tstep ps > 0)
                     \<or> tstep mod fst (write_slice_tstep ps) = 0
                     \<or> tstep mod fst (write_tstep ps) = 0
                     \<or> tstep mod Compute_energy ps = 0
                  then (heap s)(fu \<mapsto> [backward lib T f_hat, backward lib T u_hat])
                  else heap s),
               gradu :=
                 (if tstep mod Compute_energy ps = 0 then grad_u lib u_hat else gradu s)\<rparr>"
    using assms
    by (auto simp: update_def Let_def plot_block_def slice_block_def write_block_def
        energy_block_def py_mod_def backward_unless_transformed_def Function_backward_eval
        unpack2_def rd_def N_def np_prod_N_eq kinetic_energy_def
        strain_energy_def potential_energy_def potential_local_def grad_u_def
        linear_momentum_def linear_local_def angular_momentum_def angular_local_def)
  then show ?thesis by (simp add: par_def)
qed

theorem energy_diagnostics_witness:
  "heap toy_state 2 = Some [5, 6] \<and> heap toy_state 0 = Some [1, 2] \<and> (0::nat) \<noteq> 2 \<and>
   plot_tstep par \<noteq> 0 \<and> fst (write_slice_tstep par) \<noteq> 0 \<and>
   fst (write_tstep par) \<noteq> 0 \<and> Compute_energy par \<noteq> 0 \<and>
   (\<exists>s' ev. update toy_library toy_state 0 2 (1 / 2) 100 par = Inr (s', ev) \<and>
      filter is_diagnostic ev =
        [Allreduce (potential_local toy_library 12),
         Allreduce (linear_local toy_library 10 (grad_u toy_library 6)),
         Allreduce (angular_local toy_library 10 12 (grad_u toy_library 6)),
         Print (1 / 2) (kinetic_energy toy_library 5 + strain_energy toy_library 6
                          + potential_energy toy_library 12)
           (linear_momentum toy_library 10 (grad_u toy_library 6))
           (angular_momentum toy_library 10 12 (grad_u toy_library 6)),
         Barrier] \<and>
      s' = toy_state\<lparr>heap := (heap toy_state)(0 \<mapsto> [10, 12]),
                      gradu := grad_u toy_library 6\<rparr>) \<and>
   (\<exists>s' ev. update (toy_library\<lparr>rank := 1\<rparr>) toy_state 0 2 (1 / 2) 100 par = Inr (s', ev) \<and>
      filter is_diagnostic ev =
        [Allreduce (potential_local toy_library 12),
         Allreduce (linear_local toy_library 10 (grad_u toy_library 6)),
         Allreduce (angular_local toy_library 10 12 (grad_u toy_library 6)),
         Barrier] \<and>
      s' = toy_state\<lparr>heap := (heap toy_state)(0 \<mapsto> [10, 12]),
                      gradu := grad_u toy_library 6\<rparr>)"
proof -
  have h1: "heap toy_state 2 = Some [5, 6]" by (simp add: toy_state_def)
  have h2: "heap toy_state 0 = Some [1, 2]" by (simp add: toy_state_def)
  have h3: "(0::nat) \<noteq> 2" by simp
  have p1: "plot_tstep par \<noteq> 0" by (simp add: par_def)
  have p2: "fst (write_slice_tstep par) \<noteq> 0" by (simp add: par_def)
  have p3: "fst (write_tstep par) \<noteq> 0" by (simp add: par_def)
  have p4: "Compute_energy par \<noteq> 0" by (simp add: par_def)
  have m: "(100::int) mod Compute_energy par = 0" by (simp add: par_def)
  have r: "rank toy_library = 0" "backward toy_library T 5 = 10" "backward toy_library T 6 = 12"
    by (simp_all add: toy_library_def)
  have r1: "rank (toy_library\<lparr>rank := 1\<rparr>) = 1"
    "backward (toy_library\<lparr>rank := 1\<rparr>) T 5 = 10"
    "backward (toy_library\<lparr>rank := 1\<rparr>) T 6 = 12"
    "potential_local (toy_library\<lparr>rank := 1\<rparr>) = potential_local toy_library"
    "linear_local (toy_library\<lparr>rank := 1\<rparr>) = linear_local toy_library"
    "angular_local (toy_library\<lparr>rank := 1\<rparr>) = angular_local toy_library"
    "grad_u (toy_library\<lparr>rank := 1\<rparr>) = grad_u toy_library"
    by (simp_all add: toy_library_def potential_local_def linear_local_def angular_local_def
        grad_u_def fun_eq_iff X_def K_def)
  from energy_diagnostics [OF h1 h2 h3 p1 p2 p3 p4, of toy_library "1 / 2" 100]
    energy_diagnostics [OF h1 h2 h3 p1 p2 p3 p4, of "toy_library\<lparr>rank := 1\<rparr>" "1 / 2" 100]
    h1 h2 p1 p2 p3 p4 m r r1
  show ?thesis by auto
qed

text \<open>
  C6. With the script's parameters (\<open>write_slice_tstep[0] = 10\<close>, \<open>write_tstep[0] = 50\<close>) the
  update callback returns, and its file writes are: the slice write exactly when \<open>tstep\<close>
  is a multiple of 10, followed by the write of the whole field exactly when \<open>tstep\<close> is a
  multiple of 50; on any other step it writes nothing.
\<close>

theorem scheduled_file_writes:
  assumes "heap s fu_hat = Some [f_hat, u_hat]" and "heap s fu = Some [a, b]"
  shows "fst (write_slice_tstep par) = 10 \<and> fst (write_tstep par) = 50 \<and>
     (\<exists>s' ev. update lib s fu fu_hat t tstep par = Inr (s', ev) \<and>
        filter is_file_write ev =
          (if tstep mod 10 = 0
           then [File_write file0 tstep
                   [(''fu'', [sliced fu_g [slice_None, slice_None, int_index 10, slice_None],
                              sliced fu_g [slice_None, int_index 10, slice_None, slice_None]])]
                   True]
           else []) @
          (if tstep mod 50 = 0
           then [File_write file0 tstep [(''fu'', [whole fu_g])] True]
           else []))"
proof -
  have specs: "snd (write_slice_tstep par) =
      [(''fu'', [sliced fu_g [slice_None, slice_None, int_index 10, slice_None],
                 sliced fu_g [slice_None, int_index 10, slice_None, slice_None]])]"
    "snd (write_tstep par) = [(''fu'', [whole fu_g])]"
    by (simp_all add: par_def)
  have steps: "fst (write_slice_tstep par) = 10" "fst (write_tstep par) = 50"
    by (simp_all add: par_def)
  consider (idle) "tstep mod 10 \<noteq> 0" | (slice) "tstep mod 10 = 0" "tstep mod 50 \<noteq> 0"
    | (checkpoint) "tstep mod 50 = 0" "tstep mod 100 \<noteq> 0" | (energy) "tstep mod 100 = 0"
    by metis
  then have "\<exists>s' ev. update lib s fu fu_hat t tstep par = Inr (s', ev) \<and>
        filter is_file_write ev =
          (if tstep mod 10 = 0
           then [File_write file0 tstep
                   [(''fu'', [sliced fu_g [slice_None, slice_None, int_index 10, slice_None],
                              sliced fu_g [slice_None, int_index 10, slice_None, slice_None]])]
                   True]
           else []) @
          (if tstep mod 50 = 0
           then [File_write file0 tstep [(''fu'', [whole fu_g])] True]
           else [])"
  proof cases
    case idle
    then have "tstep mod 50 \<noteq> 0" by presburger
    with idle show ?thesis by (simp add: update_par_idle)
  next
    case slice
    then show ?thesis by (simp add: update_par_slice [OF assms] specs)
  next
    case checkpoint
    then have "tstep mod 10 = 0" by presburger
    with checkpoint show ?thesis by (simp add: update_par_checkpoint [OF assms] specs)
  next
    case energy
    then have "tstep mod 10 = 0" "tstep mod 50 = 0" by presburger+
    with energy show ?thesis
      by (simp add: update_par_energy [OF assms energy refl refl] specs)
  qed
  with steps show ?thesis by blast
qed

theorem scheduled_file_writes_witness:
  "heap toy_state 2 = Some [5, 6] \<and> heap toy_state 0 = Some [1, 2] \<and>
   (\<exists>s' ev. update toy_library toy_state 0 2 (1 / 2) 30 par = Inr (s', ev) \<and>
      filter is_file_write ev =
        [File_write file0 30
           [(''fu'', [sliced fu_g [slice_None, slice_None, int_index 10, slice_None],
                      sliced fu_g [slice_None, int_index 10, slice_None, slice_None]])]
           True])"
proof -
  have h1: "heap toy_state 2 = Some [5, 6]" by (simp add: toy_state_def)
  have h2: "heap toy_state 0 = Some [1, 2]" by (simp add: toy_state_def)
  from scheduled_file_writes [OF h1 h2, of toy_library "1 / 2" 30] h1 h2
  show ?thesis by simp
qed

section \<open>The main block and the module level\<close>

text \<open>
  C7. The first three calls of the main block construct an ETDRK4 integrator over the
  mixed space \<open>TT\<close> with \<open>NonlinearRHS\<close> and \<open>update\<close> as its callbacks and \<open>par\<close> as its
  parameters, set it up with \<open>dt = 0.005\<close>, and run its solve loop on \<open>fu\<close>, \<open>fu_hat\<close>
  with \<open>dt = 0.005\<close> over the interval \<open>(0, 100)\<close>.
\<close>

theorem integrator_wiring:
  "take 3 (main lib) =
     [ETDRK4 TT (NonlinearRHS lib) (update lib) par,
      integrator_setup 0.005,
      integrator_solve fu_g fu_hat_g 0.005 (0, 100)]"
  by (simp add: main_def dt_def par_def)

text \<open>
  C8. The module level leaves \<open>fu = [0, u0]\<close> with \<open>u0 = 0.1*exp(-(x^2 + y^2 + z^2))\<close> on
  the local mesh of \<open>T\<close>, \<open>fu_hat = [0, forward(u0)]\<close> with the name \<open>u_hat\<close> bound to the
  second component of \<open>fu_hat\<close>, and \<open>dfu = [0, 0]\<close>: the velocity \<open>f\<close> and its transform
  are zero, only the component \<open>u\<close> is assigned.
\<close>

theorem initial_condition:
  "module_init lib =
     Inr \<lparr>heap =
            (let xyz = local_mesh lib T;
                 u0 = 0.1 *\<^sub>R np_exp lib
                        (- (fst xyz ^ 2 + fst (snd xyz) ^ 2 + snd (snd xyz) ^ 2))
             in [fu_g \<mapsto> [0, u0], dfu_g \<mapsto> [0, 0], fu_hat_g \<mapsto> [0, forward lib T u0]]),
          Tp = T, up = 0, gradu = 0, count = 0, u_hat_g = (fu_hat_g, 1)\<rparr>"
  by (simp add: module_init_eval ul_def X_def Let_def)

section \<open>Frame of the right-hand side callback\<close>




section \<open>The two-component structure\<close>

text \<open>
  C4. The mixed space \<open>TT\<close> is two copies of \<open>T\<close>. The three arrays the module allocates
  over it (\<open>fu\<close>, \<open>dfu\<close>, \<open>fu_hat\<close>) have exactly two components each, so each of the
  module's unpackings into two names succeeds. Both callbacks keep that structure: called
  on arrays of two components, \<open>NonlinearRHS\<close> and \<open>update\<close> (for any parameters with
  non-zero step counts, file writes included) return, and every array that had two
  components before the call has two components after it.
\<close>

theorem two_component_structure:
  assumes "two_components (heap s) fu" and "two_components (heap s) fu_hat"
    and "two_components (heap s) dfu_hat" and "two_components (heap s) a"
    and "plot_tstep ps \<noteq> 0" and "fst (write_slice_tstep ps) \<noteq> 0"
    and "fst (write_tstep ps) \<noteq> 0" and "Compute_energy ps \<noteq> 0"
  shows "TT = [T, T] \<and>
     (\<exists>s0. module_init lib = Inr s0 \<and>
        two_components (heap s0) fu_g \<and> two_components (heap s0) dfu_g \<and>
        two_components (heap s0) fu_hat_g \<and>
        unpack2 (heap s0) fu_g = Inr ((fu_g, 0), (fu_g, 1)) \<and>
        unpack2 (heap s0) dfu_g = Inr ((dfu_g, 0), (dfu_g, 1)) \<and>
        unpack2 (heap s0) fu_hat_g = Inr ((fu_hat_g, 0), (fu_hat_g, 1))) \<and>
     (\<exists>s'. NonlinearRHS lib s fu fu_hat dfu_hat = Inr (s', dfu_hat) \<and>
        two_components (heap s') a) \<and>
     (\<exists>s' ev. update lib s fu fu_hat t tstep ps = Inr (s', ev) \<and>
        two_components (heap s') a)"
proof -
  have init: "\<exists>s0. module_init lib = Inr s0 \<and>
        two_components (heap s0) fu_g \<and> two_components (heap s0) dfu_g \<and>
        two_components (heap s0) fu_hat_g \<and>
        unpack2 (heap s0) fu_g = Inr ((fu_g, 0), (fu_g, 1)) \<and>
        unpack2 (heap s0) dfu_g = Inr ((dfu_g, 0), (dfu_g, 1)) \<and>
        unpack2 (heap s0) fu_hat_g = Inr ((fu_hat_g, 0), (fu_hat_g, 1))"
    by (simp add: module_init_eval two_components_def unpack2_def fu_g_def dfu_g_def
        fu_hat_g_def)
  have rhs: "\<exists>s'. NonlinearRHS lib s fu fu_hat dfu_hat = Inr (s', dfu_hat) \<and>
        two_components (heap s') a"
    using assms(2-4)
    by (auto simp: NonlinearRHS_def Let_def unpack2_def fill0_def wr_def two_components_def
        split: option.splits)
  have upd: "\<exists>s' ev. update lib s fu fu_hat t tstep ps = Inr (s', ev) \<and>
        two_components (heap s') a"
    using assms(1,2,4-8)
    by (auto simp: update_def Let_def plot_block_def slice_block_def write_block_def
        energy_block_def py_mod_def backward_unless_transformed_def Function_backward_def
        unpack2_def two_components_def TT_eq split: option.splits)
  from init rhs upd show ?thesis by (simp add: TT_eq)
qed

theorem two_component_structure_witness:
  "two_components (heap toy_state) 0 \<and> two_components (heap toy_state) 2 \<and>
   two_components (heap toy_state) 1 \<and>
   plot_tstep par \<noteq> 0 \<and> fst (write_slice_tstep par) \<noteq> 0 \<and>
   fst (write_tstep par) \<noteq> 0 \<and> Compute_energy par \<noteq> 0 \<and>
   (\<exists>s'. NonlinearRHS toy_library toy_state 0 2 1 = Inr (s', 1) \<and>
      two_components (heap s') 1) \<and>
   (\<exists>s' ev. update toy_library toy_state 0 2 (1 / 2) 100 par = Inr (s', ev) \<and>
      two_components (heap s') 1)"
proof -
  have h0: "two_components (heap toy_state) 0" by (simp add: toy_state_def two_components_def)
  have h1: "two_components (heap toy_state) 1" by (simp add: toy_state_def two_components_def)
  have h2: "two_components (heap toy_state) 2" by (simp add: toy_state_def two_components_def)
  have p1: "plot_tstep par \<noteq> 0" by (simp add: par_def)
  have p2: "fst (write_slice_tstep par) \<noteq> 0" by (simp add: par_def)
  have p3: "fst (write_tstep par) \<noteq> 0" by (simp add: par_def)
  have p4: "Compute_energy par \<noteq> 0" by (simp add: par_def)
  from two_component_structure [OF h0 h2 h1 h1 p1 p2 p3 p4, of toy_library "1 / 2" 100]
    h0 h1 h2 p1 p2 p3 p4
  show ?thesis by simp
qed

section \<open>One backward transform per update\<close>

text \<open>
  C10. For any parameters with non-zero step counts, a call of \<open>update\<close> returns and
  performs the backward transform \<open>fu_hat.backward(fu)\<close> at most once: exactly once when
  at least one of the plotting, slice-write, checkpoint-write and energy conditions holds
  at \<open>tstep\<close>, and never otherwise. In the first case the physical array \<open>fu\<close> holds, on
  return, the transform of the \<open>fu_hat\<close> the call received, whichever blocks ran; in
  the second the heap is unchanged.
\<close>

theorem backward_at_most_once:
  assumes "heap s fu_hat = Some [c, d]" and "heap s fu = Some [a, b]"
    and "plot_tstep ps \<noteq> 0" and "fst (write_slice_tstep ps) \<noteq> 0"
    and "fst (write_tstep ps) \<noteq> 0" and "Compute_energy ps \<noteq> 0"
  shows "\<exists>s' ev. update lib s fu fu_hat t tstep ps = Inr (s', ev) \<and>
     length (filter is_backward ev) \<le> 1 \<and>
     length (filter is_backward ev) =
       (if (rank lib = 0 \<and> tstep mod plot_tstep ps = 0 \<and> plot_tstep ps > 0)
           \<or> tstep mod fst (write_slice_tstep ps) = 0
           \<or> tstep mod fst (write_tstep ps) = 0
           \<or> tstep mod Compute_energy ps = 0 then 1 else 0) \<and>
     heap s' =
       (if (rank lib = 0 \<and> tstep mod plot_tstep ps = 0 \<and> plot_tstep ps > 0)
           \<or> tstep mod fst (write_slice_tstep ps) = 0
           \<or> tstep mod fst (write_tstep ps) = 0
           \<or> tstep mod Compute_energy ps = 0
        then (heap s)(fu \<mapsto> [backward lib T c, backward lib T d]) else heap s)"
  using assms
  by (auto simp: update_def Let_def plot_block_def slice_block_def write_block_def
        energy_block_def py_mod_def backward_unless_transformed_def Function_backward_eval
        unpack2_def)

theorem backward_at_most_once_witness:
  "heap toy_state 2 = Some [5, 6] \<and> heap toy_state 0 = Some [1, 2] \<and>
   plot_tstep par \<noteq> 0 \<and> fst (write_slice_tstep par) \<noteq> 0 \<and>
   fst (write_tstep par) \<noteq> 0 \<and> Compute_energy par \<noteq> 0 \<and>
   (\<exists>s' ev. update toy_library toy_state 0 2 (1 / 2) 100 par = Inr (s', ev) \<and>
      length (filter is_backward ev) = 1 \<and>
      heap s' = (heap toy_state)(0 \<mapsto> [10, 12]))"
proof -
  have h1: "heap toy_state 2 = Some [5, 6]" by (simp add: toy_state_def)
  have h2: "heap toy_state 0 = Some [1, 2]" by (simp add: toy_state_def)
  have p1: "plot_tstep par \<noteq> 0" by (simp add: par_def)
  have p2: "fst (write_slice_tstep par) \<noteq> 0" by (simp add: par_def)
  have p3: "fst (write_tstep par) \<noteq> 0" by (simp add: par_def)
  have p4: "Compute_energy par \<noteq> 0" by (simp add: par_def)
  have r: "rank toy_library = 0" "backward toy_library T 5 = 10" "backward toy_library T 6 = 12"
    by (simp_all add: toy_library_def)
  have m: "(100::int) mod fst (write_slice_tstep par) = 0" by (simp add: par_def)
  from backward_at_most_once [OF h1 h2 p1 p2 p3 p4, of toy_library "1 / 2" 100]
    h1 h2 p1 p2 p3 p4 r m
  show ?thesis by auto
qed

end
